theory Spec2Isabelle
  imports Complex_Main "HOL-Library.AList"
begin

section \<open>The merge module: data model\<close>

text \<open>
  The merge module (\<^verbatim>\<open>iCub::learningmachine::merge\<close>) reads bottles from several
  source ports and recombines selected parts of them into one output bottle. A bottle is
  the middleware's container: an ordered list of values, a value being a number, a
  string, a vocabulary code, a nested list, or the null value that \<^verbatim>\<open>Bottle::get\<close>
  hands back for a position outside the bottle.
\<close>

text \<open>A \<^verbatim>\<open>double\<close>: a finite value, kept as the real number it stands for (with
  \<open>Finite 0\<close> for the zero of positive sign), the zero of negative sign, the two
  infinities, or not a number.\<close>

datatype double = Finite real | MinusZero | PlusInfinity | MinusInfinity | NaN

text \<open>Rounding a real number to the nearest \<^verbatim>\<open>double\<close>, ties to the even
  significand: the number is scaled by powers of two until its integer part has 53 bits,
  or until the exponent reaches that of the subnormal numbers, and is rounded there; a
  result of \<open>2 ^ 1024\<close> or more is an infinity.\<close>

definition pow2 :: "int \<Rightarrow> real" where
  "pow2 e = (if 0 \<le> e then 2 ^ nat e else 1 / 2 ^ nat (- e))"

definition round_half_even :: "real \<Rightarrow> int" where
  "round_half_even q =
     (let f = \<lfloor>q\<rfloor>; d = q - of_int f
      in if d < 1 / 2 then f else if 1 / 2 < d then f + 1 else if even f then f else f + 1)"

function scale_down :: "real \<Rightarrow> int \<Rightarrow> real \<times> int" where
  "scale_down a e = (if 2 ^ 53 \<le> a then scale_down (a / 2) (e + 1) else (a, e))"
  by pat_completeness auto
termination
proof (relation "measure (\<lambda>(a, e). nat \<lceil>a\<rceil>)")
  show "wf (measure (\<lambda>(a, e). nat \<lceil>a\<rceil>))" by simp
next
  fix a :: real and e :: int
  assume a: "2 ^ 53 \<le> a"
  have "\<lceil>a / 2\<rceil> < \<lceil>a\<rceil>"
  proof -
    have "of_int \<lceil>a / 2\<rceil> < a / 2 + 1" by linarith
    also have "\<dots> \<le> a - 1" using a by simp
    finally have "of_int \<lceil>a / 2\<rceil> < a - 1" .
    moreover have "a \<le> of_int \<lceil>a\<rceil>" by linarith
    ultimately have "(of_int \<lceil>a / 2\<rceil> :: real) < of_int \<lceil>a\<rceil>" by linarith
    then show ?thesis by simp
  qed
  moreover have "0 < \<lceil>a\<rceil>" using a by (simp add: ceiling_less_iff[symmetric] less_ceiling_iff)
  ultimately show "((a / 2, e + 1), (a, e)) \<in> measure (\<lambda>(a, e). nat \<lceil>a\<rceil>)" by simp
qed

function scale_up :: "real \<Rightarrow> int \<Rightarrow> real \<times> int" where
  "scale_up a e = (if a < 2 ^ 52 \<and> - 1074 < e then scale_up (2 * a) (e - 1) else (a, e))"
  by pat_completeness auto
termination
  by (relation "measure (\<lambda>(a, e). nat (e + 1074))") auto

definition round_double :: "real \<Rightarrow> double" where
  "round_double r =
     (if r = 0 then Finite 0
      else
        (let (a1, e1) = scale_down \<bar>r\<bar> 0;
             (a2, e2) = scale_up a1 e1;
             m = round_half_even a2;
             v = of_int m * pow2 e2
         in if pow2 1024 \<le> v then (if 0 < r then PlusInfinity else MinusInfinity)
            else if m = 0 then (if 0 < r then Finite 0 else MinusZero)
            else Finite (if 0 < r then v else - v)))"



datatype Value =
    VInt32 int
  | VFloat64 double
  | VString string
  | VVocab32 int
  | VList "Value list"
  | VNull

type_synonym Bottle = "Value list"

text \<open>Every \<^verbatim>\<open>throw\<close> of the module is a \<^verbatim>\<open>std::runtime_error\<close> carrying a
  message. The second outcome stands for the undefined behaviour of a signed \<^verbatim>\<open>int\<close>
  incremented past its largest value.\<close>

datatype exn = runtime_error string | signed_overflow

definition isList :: "Value \<Rightarrow> bool" where
  "isList v = (case v of VList _ \<Rightarrow> True | _ \<Rightarrow> False)"

definition isString :: "Value \<Rightarrow> bool" where
  "isString v = (case v of VString _ \<Rightarrow> True | _ \<Rightarrow> False)"



definition asList :: "Value \<Rightarrow> Bottle" where
  "asList v = (case v of VList b \<Rightarrow> b | _ \<Rightarrow> [])"

definition asString :: "Value \<Rightarrow> string" where
  "asString v = (case v of VString s \<Rightarrow> s | _ \<Rightarrow> [])"

text \<open>\<^verbatim>\<open>Bottle::get(idx)\<close>: the element at position \<open>idx\<close> (counted from 0), and the
  null value when \<open>idx\<close> lies outside the bottle; the container never throws.\<close>

definition get :: "Bottle \<Rightarrow> int \<Rightarrow> Value" where
  "get b idx = (if 0 \<le> idx \<and> idx < int (length b) then b ! nat idx else VNull)"

text \<open>\<^verbatim>\<open>Bottle::add(v)\<close> appends a copy of the value.\<close>

definition add :: "Bottle \<Rightarrow> Value \<Rightarrow> Bottle" where
  "add b v = b @ [v]"






section \<open>Strings and streams of the standard library\<close>

text \<open>\<^verbatim>\<open>std::string::find(d, pos)\<close>: the first position at or after \<open>pos\<close> where
  \<open>d\<close> occurs, \<open>None\<close> standing for \<^verbatim>\<open>npos\<close>.\<close>

fun find_at :: "string \<Rightarrow> string \<Rightarrow> nat \<Rightarrow> nat option" where
  "find_at [] d i = (if d = [] then Some i else None)"
| "find_at (c # cs) d i =
     (if take (length d) (c # cs) = d then Some i else find_at cs d (Suc i))"

definition find_str :: "string \<Rightarrow> string \<Rightarrow> nat \<Rightarrow> nat option" where
  "find_str s d pos = (if pos \<le> length s then find_at (drop pos s) d pos else None)"

text \<open>\<^verbatim>\<open>std::string::substr(pos, len)\<close>, with \<open>None\<close> for the length \<^verbatim>\<open>npos\<close>.
  Every call of the module has \<open>pos\<close> inside the string, where \<^verbatim>\<open>substr\<close> does
  not throw.\<close>

definition substr :: "string \<Rightarrow> nat \<Rightarrow> nat option \<Rightarrow> string" where
  "substr s pos len = (case len of None \<Rightarrow> drop pos s | Some n \<Rightarrow> take n (drop pos s))"

text \<open>\<^verbatim>\<open>s.c_str()\<close> handed to a parameter of type \<^verbatim>\<open>std::string\<close>: the
  characters before the first null character.\<close>

definition c_str :: "string \<Rightarrow> string" where
  "c_str s = takeWhile (\<lambda>c. c \<noteq> CHR 0x00) s"

lemma find_at_bounds: "find_at s d i = Some e \<Longrightarrow> i \<le> e \<and> e \<le> i + length s"
  by (induction s d i rule: find_at.induct) (auto split: if_splits)

lemma find_str_bounds: "find_str s d pos = Some e \<Longrightarrow> pos \<le> e \<and> e \<le> length s"
  by (auto simp: find_str_def split: if_splits dest: find_at_bounds)

text \<open>\<^verbatim>\<open>IndexSelector::split(input, delimiter)\<close>: the \<^verbatim>\<open>while (end != npos)\<close>
  loop, entered with \<^verbatim>\<open>start = 0\<close>. The module calls it with the one-character
  delimiters \<^verbatim>\<open>","\<close> and \<^verbatim>\<open>"-"\<close>.\<close>

function split_loop :: "string \<Rightarrow> string \<Rightarrow> nat \<Rightarrow> string list \<Rightarrow> string list" where
  "split_loop input delimiter start output =
     (case find_str input delimiter start of
        None \<Rightarrow> output @ [substr input start None]
      | Some e \<Rightarrow>
          split_loop input delimiter (e + 1) (output @ [substr input start (Some (e - start))]))"
  by pat_completeness auto
termination
  by (relation "measure (\<lambda>(input, delimiter, start, output). Suc (length input) - start)")
     (auto dest: find_str_bounds)

definition split_str :: "string \<Rightarrow> string \<Rightarrow> string list" where
  "split_str input delimiter = split_loop input delimiter 0 []"

text \<open>Formatted input and output of an \<^verbatim>\<open>int\<close>. \<^verbatim>\<open>buffer >> ret\<close> skips leading
  white space, reads an optional sign and the longest run of decimal digits, and fails
  when there is no digit or the number does not fit 32 bits; what follows the digits
  stays unread in the stream.\<close>

definition INT_MAX :: int where
  "INT_MAX = 2147483647"

definition INT_MIN :: int where
  "INT_MIN = - 2147483648"

definition isspace :: "char \<Rightarrow> bool" where
  "isspace c = (c \<in> set [CHR 0x20, CHR 0x09, CHR 0x0A, CHR 0x0B, CHR 0x0C, CHR 0x0D])"

definition isdigit :: "char \<Rightarrow> bool" where
  "isdigit c = (c \<in> set ''0123456789'')"

definition digit_val :: "char \<Rightarrow> int" where
  "digit_val c = of_char c - 48"

definition digits_val :: "string \<Rightarrow> int" where
  "digits_val ds = foldl (\<lambda>acc c. 10 * acc + digit_val c) 0 ds"

definition read_int :: "string \<Rightarrow> int option" where
  "read_int str =
     (let s = dropWhile isspace str;
          neg = (s \<noteq> [] \<and> hd s = CHR ''-'');
          s' = (if s \<noteq> [] \<and> (hd s = CHR ''-'' \<or> hd s = CHR ''+'') then tl s else s);
          ds = takeWhile isdigit s';
          v = (if neg then - digits_val ds else digits_val ds)
      in if ds = [] \<or> v < INT_MIN \<or> INT_MAX < v then None else Some v)"

definition digit_char :: "nat \<Rightarrow> char" where
  "digit_char d = ''0123456789'' ! d"

fun show_nat :: "nat \<Rightarrow> string" where
  "show_nat n = (if n < 10 then [digit_char n] else show_nat (n div 10) @ [digit_char (n mod 10)])"

definition show_int :: "int \<Rightarrow> string" where
  "show_int i = (if i < 0 then CHR ''-'' # show_nat (nat (- i)) else show_nat (nat i))"

text \<open>\<^verbatim>\<open>IndexSelector::stringToInt(str)\<close>.\<close>

definition stringToInt :: "string \<Rightarrow> exn + int" where
  "stringToInt str =
     (case read_int str of
        Some ret \<Rightarrow> Inr ret
      | None \<Rightarrow> Inl (runtime_error (''Could not read integer from '' @ [CHR 0x27] @ str @ [CHR 0x27])))"

section \<open>PortSource and SourceList\<close>

text \<open>The name server and the connections of the network, as far as the module uses
  them: \<^verbatim>\<open>Network::queryName(n).isValid()\<close> holds for the registered names, opening a
  port registers its name, \<^verbatim>\<open>Network::connect\<close> records a connection.\<close>

record Network =
  registered :: "string list"
  connections :: "(string \<times> string) list"

definition queryName :: "Network \<Rightarrow> string \<Rightarrow> bool" where
  "queryName net n = (n \<in> set (registered net))"

record PortSource =
  data :: Bottle
  port :: string

text \<open>The \<^verbatim>\<open>std::map\<close> of the source list is kept as the list of its entries, one
  for each name, and \<open>sourceMap\<close> looks a name up. The loops over the map visit every
  entry and their outcome does not depend on the order.\<close>

record SourceList =
  portPrefix :: string
  sourceEntries :: "(string \<times> PortSource) list"

definition sourceMap :: "SourceList \<Rightarrow> string \<rightharpoonup> PortSource" where
  "sourceMap sl = map_of (sourceEntries sl)"

definition getData :: "PortSource \<Rightarrow> Bottle" where
  "getData ps = data ps"

definition hasSource :: "SourceList \<Rightarrow> string \<Rightarrow> bool" where
  "hasSource sl name = (sourceMap sl name \<noteq> None)"

definition getSource :: "SourceList \<Rightarrow> string \<Rightarrow> exn + PortSource" where
  "getSource sl name =
     (if \<not> hasSource sl name then Inl (runtime_error ''Attempt to retrieve inexistent source.'')
      else (case sourceMap sl name of
              Some ps \<Rightarrow> Inr ps
            | None \<Rightarrow> Inl (runtime_error ''Attempt to retrieve inexistent source.'')))"

text \<open>\<^verbatim>\<open>PortSource::getInputName(prefix)\<close>: the \<^verbatim>\<open>do ... while\<close> loop over
  \<^verbatim>\<open>i = 1, 2, ...\<close> that stops at the first name the name server does not know. Each
  round increments \<^verbatim>\<open>i\<close>, which is undefined at the largest \<^verbatim>\<open>int\<close>.\<close>

function getInputName_loop :: "Network \<Rightarrow> string \<Rightarrow> int \<Rightarrow> exn + string" where
  "getInputName_loop net prefix i =
     (if INT_MAX \<le> i then Inl signed_overflow
      else (let buffer = prefix @ show_int i @ '':i''
            in if queryName net buffer then getInputName_loop net prefix (i + 1)
               else Inr buffer))"
  by pat_completeness auto
termination
  by (relation "measure (\<lambda>(net, prefix, i). nat (INT_MAX - i))") auto

definition getInputName :: "Network \<Rightarrow> string \<Rightarrow> exn + string" where
  "getInputName net prefix = getInputName_loop net prefix 1"

text \<open>The constructor \<^verbatim>\<open>PortSource(name, pp)\<close> opens the port (\<^verbatim>\<open>initPort\<close>); the
  cached bottle starts empty.\<close>

definition new_PortSource :: "string \<Rightarrow> string \<Rightarrow> Network \<Rightarrow> exn + (PortSource \<times> Network)" where
  "new_PortSource name pp net =
     (case getInputName net pp of
        Inl e \<Rightarrow> Inl e
      | Inr n \<Rightarrow> Inr (\<lparr>data = [], port = n\<rparr>, net\<lparr>registered := registered net @ [n]\<rparr>))"

text \<open>\<^verbatim>\<open>PortSource::connect(dst)\<close>.\<close>

definition connect :: "PortSource \<Rightarrow> string \<Rightarrow> Network \<Rightarrow> exn + Network" where
  "connect ps dst net =
     (if queryName net dst
      then Inr (net\<lparr>connections := connections net @ [(dst, port ps)]\<rparr>)
      else Inl (runtime_error (''Cannot find requested port: '' @ dst)))"

text \<open>\<^verbatim>\<open>PortSource::update()\<close> is \<^verbatim>\<open>port.read(data)\<close>, a read that waits: it
  returns when a bottle has arrived, which replaces the cache, or when the port has been
  interrupted, which leaves the cache as it is. \<open>incoming\<close> tells for each port which of
  the two happens, or that neither does and the read does not return.\<close>

datatype read_result = Delivered Bottle | Interrupted | Blocked

definition update_PortSource :: "(string \<Rightarrow> read_result) \<Rightarrow> PortSource \<Rightarrow> PortSource option" where
  "update_PortSource incoming ps =
     (case incoming (port ps) of
        Delivered b \<Rightarrow> Some (ps\<lparr>data := b\<rparr>)
      | Interrupted \<Rightarrow> Some ps
      | Blocked \<Rightarrow> None)"

text \<open>\<^verbatim>\<open>SourceList::update()\<close>: the loop over the entries; \<open>None\<close> when a read does
  not return.\<close>

fun update_loop :: "(string \<Rightarrow> read_result) \<Rightarrow> (string \<times> PortSource) list
    \<Rightarrow> (string \<times> PortSource) list option" where
  "update_loop incoming [] = Some []"
| "update_loop incoming ((n, ps) # es) =
     (case update_PortSource incoming ps of
        None \<Rightarrow> None
      | Some ps' \<Rightarrow>
          (case update_loop incoming es of
             None \<Rightarrow> None
           | Some es' \<Rightarrow> Some ((n, ps') # es')))"

definition update :: "(string \<Rightarrow> read_result) \<Rightarrow> SourceList \<Rightarrow> SourceList option" where
  "update incoming sl =
     (case update_loop incoming (sourceEntries sl) of
        None \<Rightarrow> None
      | Some es \<Rightarrow> Some (sl\<lparr>sourceEntries := es\<rparr>))"

text \<open>\<^verbatim>\<open>SourceList::addSource(name)\<close>. The new source is stored in the map before
  \<^verbatim>\<open>connect\<close> runs; the source list and the network are returned as the call leaves
  them, also when it throws.\<close>

definition addSource :: "string \<Rightarrow> SourceList \<times> Network \<Rightarrow> (exn + unit) \<times> SourceList \<times> Network" where
  "addSource name st =
     (let sl = fst st; net = snd st in
      if \<not> hasSource sl name then
        (case new_PortSource name (portPrefix sl) net of
           Inl e \<Rightarrow> (Inl e, sl, net)
         | Inr (ps, net1) \<Rightarrow>
             (let sl1 = sl\<lparr>sourceEntries := AList.update name ps (sourceEntries sl)\<rparr> in
              (case connect ps name net1 of
                 Inl e \<Rightarrow> (Inl e, sl1, net1)
               | Inr net2 \<Rightarrow> (Inr (), sl1, net2))))
      else (Inr (), sl, net))"

section \<open>Selectors\<close>

text \<open>The composite pattern of \<^verbatim>\<open>DataSelector\<close>: an index selector names a source and
  carries one list of indices per dimension; a composite selector groups children; the
  root selector is a composite that does not wrap its output.\<close>

datatype DataSelector =
    IndexSelector string "int list list"
  | CompositeSelector "DataSelector list"
  | RootSelector "DataSelector list"

subsection \<open>Parsing a format\<close>

text \<open>The \<^verbatim>\<open>for (idx = start; idx <= end; idx++)\<close> loop of \<^verbatim>\<open>loadIndices\<close>.
  Incrementing \<^verbatim>\<open>idx\<close> past the largest \<^verbatim>\<open>int\<close> is undefined behaviour.\<close>

function range_loop :: "int \<Rightarrow> int \<Rightarrow> int list \<Rightarrow> exn + int list" where
  "range_loop idx en idxList =
     (if idx \<le> en
      then (if INT_MAX \<le> idx then Inl signed_overflow
            else range_loop (idx + 1) en (idxList @ [idx]))
      else Inr idxList)"
  by pat_completeness auto
termination
  by (relation "measure (\<lambda>(idx, en, idxList). nat (en + 1 - idx))") auto

text \<open>The body of the loop of \<^verbatim>\<open>IndexSelector::loadIndices\<close> over the index
  tokens: \<open>tok\<close> is \<^verbatim>\<open>indexSplit[i]\<close>.\<close>

definition loadIndices_body :: "string \<Rightarrow> int list \<Rightarrow> exn + int list" where
  "loadIndices_body tok idxList =
     (let rangeSplit = split_str tok ''-'' in
      if length rangeSplit = 0 then
        Inl (runtime_error (''Unexpected problem parsing: '' @ tok))
      else if length rangeSplit = 1 then
        (case stringToInt (rangeSplit ! 0) of
           Inl e \<Rightarrow> Inl e
         | Inr n \<Rightarrow> Inr (idxList @ [n]))
      else if length rangeSplit = 2 then
        (case stringToInt (rangeSplit ! 0) of
           Inl e \<Rightarrow> Inl e
         | Inr start \<Rightarrow>
             (case stringToInt (rangeSplit ! 1) of
                Inl e \<Rightarrow> Inl e
              | Inr en \<Rightarrow>
                  if start > en then
                    Inl (runtime_error (''End of range before start of range: '' @ tok))
                  else range_loop start en idxList))
      else Inl (runtime_error (''Illegal range specification: '' @ tok)))"

fun loadIndices_loop :: "string list \<Rightarrow> int list \<Rightarrow> exn + int list" where
  "loadIndices_loop [] idxList = Inr idxList"
| "loadIndices_loop (tok # toks) idxList =
     (case loadIndices_body tok idxList of
        Inl e \<Rightarrow> Inl e
      | Inr idxList' \<Rightarrow> loadIndices_loop toks idxList')"

text \<open>\<^verbatim>\<open>IndexSelector::loadIndices(format)\<close> returns the index list that the source
  pushes onto \<^verbatim>\<open>this->indices\<close>.\<close>

definition loadIndices :: "string \<Rightarrow> exn + int list" where
  "loadIndices format = loadIndices_loop (split_str format '','') []"

text \<open>The \<^verbatim>\<open>while (idxStart != npos)\<close> loop of \<^verbatim>\<open>IndexSelector::loadFormat\<close>;
  \<open>idxStart\<close> is the position of an opening bracket.\<close>

function loadFormat_loop :: "string \<Rightarrow> nat \<Rightarrow> int list list \<Rightarrow> exn + int list list" where
  "loadFormat_loop format idxStart indices =
     (case find_str format '']'' idxStart of
        None \<Rightarrow> Inl (runtime_error (''Missing closing bracket '' @ [CHR 0x27] @ '']'' @ [CHR 0x27]))
      | Some idxEnd \<Rightarrow>
          (case loadIndices (substr format (idxStart + 1) (Some (idxEnd - idxStart - 1))) of
             Inl e \<Rightarrow> Inl e
           | Inr idxList \<Rightarrow>
               (case find_str format ''['' (idxStart + 1) of
                  None \<Rightarrow> Inr (indices @ [idxList])
                | Some idxStart' \<Rightarrow>
                    if idxStart' < idxEnd then
                      Inl (runtime_error (''Unexpected opening bracket '' @ [CHR 0x27] @ ''['' @ [CHR 0x27]))
                    else loadFormat_loop format idxStart' (indices @ [idxList]))))"
  by pat_completeness auto
termination
  by (relation "measure (\<lambda>(format, idxStart, indices). length format - idxStart)")
     (auto dest!: find_str_bounds)

text \<open>The constructor \<^verbatim>\<open>IndexSelector(format)\<close>, that is
  \<^verbatim>\<open>IndexSelector::loadFormat\<close>.\<close>

definition new_IndexSelector :: "string \<Rightarrow> exn + DataSelector" where
  "new_IndexSelector format =
     (let idxStart = find_str format ''['' 0;
          name = substr format 0 idxStart
      in (case idxStart of
            None \<Rightarrow> Inr (IndexSelector name [])
          | Some i \<Rightarrow>
              (case loadFormat_loop format i [] of
                 Inl e \<Rightarrow> Inl e
               | Inr indices \<Rightarrow> Inr (IndexSelector name indices))))"

text \<open>\<^verbatim>\<open>CompositeSelector::loadFormat(format)\<close> builds the children from the
  elements of a bottle.\<close>

fun loadFormat :: "Bottle \<Rightarrow> exn + DataSelector list" where
  "loadFormat [] = Inr []"
| "loadFormat (VString s # vs) =
     (case new_IndexSelector (c_str s) of
        Inl e \<Rightarrow> Inl e
      | Inr c \<Rightarrow> (case loadFormat vs of Inl e \<Rightarrow> Inl e | Inr cs \<Rightarrow> Inr (c # cs)))"
| "loadFormat (VList b # vs) =
     (case loadFormat b of
        Inl e \<Rightarrow> Inl e
      | Inr children \<Rightarrow>
          (case loadFormat vs of
             Inl e \<Rightarrow> Inl e
           | Inr cs \<Rightarrow> Inr (CompositeSelector children # cs)))"
| "loadFormat (v # vs) =
     Inl (runtime_error (''Unexpected token during parsing: '' @ c_str (asString v)))"

definition new_CompositeSelector :: "Bottle \<Rightarrow> exn + DataSelector" where
  "new_CompositeSelector format =
     (case loadFormat format of Inl e \<Rightarrow> Inl e | Inr cs \<Rightarrow> Inr (CompositeSelector cs))"


subsection \<open>Printing a selector\<close>

text \<open>\<^verbatim>\<open>toString(indent)\<close>; the root selector inherits the composite's.\<close>

fun indices_toString :: "int list \<Rightarrow> string" where
  "indices_toString [] = []"
| "indices_toString [i] = show_int i"
| "indices_toString (i # is) = show_int i @ '','' @ indices_toString is"


subsection \<open>Selecting data\<close>

text \<open>\<^verbatim>\<open>IndexSelector::addBottle\<close>: the loop \<^verbatim>\<open>for (i = 0; i < in.size(); i++)
  out.add(in.get(i))\<close>.\<close>

fun addBottle_loop :: "Bottle \<Rightarrow> Bottle \<Rightarrow> nat list \<Rightarrow> Bottle" where
  "addBottle_loop out inp [] = out"
| "addBottle_loop out inp (i # is) = addBottle_loop (add out (get inp (int i))) inp is"

definition addBottle :: "Bottle \<Rightarrow> Bottle \<Rightarrow> Bottle" where
  "addBottle out inp = addBottle_loop out inp [0..<length inp]"

text \<open>\<^verbatim>\<open>IndexSelector::selectRecursive(out, in, it)\<close>. The iterator \<^verbatim>\<open>it\<close> points
  at the current dimension; here the third argument is what is left of that dimension's
  index list (the inner \<^verbatim>\<open>for\<close> over \<^verbatim>\<open>it2\<close>) and the fourth the dimensions after
  it, so \<^verbatim>\<open>it == indices.end()\<close> after \<^verbatim>\<open>it++\<close> is \<open>rest = []\<close>.\<close>

fun selectRecursive :: "Bottle \<Rightarrow> Bottle \<Rightarrow> int list \<Rightarrow> int list list \<Rightarrow> exn + Bottle" where
  "selectRecursive out inp [] rest = Inr out"
| "selectRecursive out inp (i # is) rest =
     (let idx = i - 1 in
      (case rest of
         [] \<Rightarrow>
           (if isList (get inp idx)
            then selectRecursive (addBottle out (asList (get inp idx))) inp is rest
            else selectRecursive (add out (get inp idx)) inp is rest)
       | d # ds \<Rightarrow>
           (if \<not> isList (get inp idx) then Inl (runtime_error ''Cannot index non-list type'')
            else (case selectRecursive out (asList (get inp idx)) d ds of
                    Inl e \<Rightarrow> Inl e
                  | Inr out' \<Rightarrow> selectRecursive out' inp is rest))))"

text \<open>\<^verbatim>\<open>select(bot, sl)\<close> of the three selector classes. A composite selector opens
  a new list at the end of the bottle \<open>b\<close> with \<^verbatim>\<open>bot.addList()\<close> and lets its
  children write into that list; the children never see \<open>b\<close> itself, so the new list is
  computed from the empty bottle and appended. An exception leaves through the whole
  call.\<close>

fun select :: "DataSelector \<Rightarrow> Bottle \<Rightarrow> SourceList \<Rightarrow> exn + Bottle"
  and selectChildren :: "DataSelector list \<Rightarrow> Bottle \<Rightarrow> SourceList \<Rightarrow> exn + Bottle" where
  "select (IndexSelector name indices) b sl =
     (case indices of
        [] \<Rightarrow> (case getSource sl name of
                 Inl e \<Rightarrow> Inl e
               | Inr src \<Rightarrow> Inr (addBottle b (getData src)))
      | d # ds \<Rightarrow> (case getSource sl name of
                     Inl e \<Rightarrow> Inl e
                   | Inr src \<Rightarrow> selectRecursive b (getData src) d ds))"
| "select (CompositeSelector children) b sl =
     (case selectChildren children [] sl of
        Inl e \<Rightarrow> Inl e
      | Inr b2 \<Rightarrow> Inr (b @ [VList b2]))"
| "select (RootSelector children) b sl = selectChildren children b sl"
| "selectChildren [] b sl = Inr b"
| "selectChildren (c # cs) b sl =
     (case select c b sl of
        Inl e \<Rightarrow> Inl e
      | Inr b' \<Rightarrow> selectChildren cs b' sl)"

section \<open>The merge module\<close>

text \<open>The state of the module. \<open>written\<close> lists the bottles written to the output
  port, \<open>closed\<close> tells that \<^verbatim>\<open>close()\<close> has closed the ports. \<^verbatim>\<open>setFrequency\<close>
  throws before it changes anything, so its error carries no new state.\<close>

record MergeModule =
  modulePrefix :: string
  desiredPeriod :: double
  sourceList :: SourceList
  dataSelector :: "DataSelector option"
  written :: "Bottle list"
  closed :: bool

text \<open>The constructor \<^verbatim>\<open>MergeModule(pp = "/lm/merge")\<close>; the period is the double
  that the literal \<^verbatim>\<open>0.1\<close> denotes, the one nearest to a tenth.\<close>

definition new_MergeModule :: MergeModule where
  "new_MergeModule =
     \<lparr>modulePrefix = ''/lm/merge'',
      desiredPeriod = round_double (1 / 10),
      sourceList = \<lparr>portPrefix = ''/lm/merge/source'', sourceEntries = []\<rparr>,
      dataSelector = None, written = [], closed = False\<rparr>"

definition getPeriod :: "MergeModule \<Rightarrow> double" where
  "getPeriod m = desiredPeriod m"





text \<open>\<^verbatim>\<open>MergeModule::updateModule()\<close>, one tick. It returns the module and the value
  handed to the run loop; it does not return when a read of the sources does not; and the
  \<^verbatim>\<open>assert\<close> fails on a module without a selector. An exception of the selection is
  caught: nothing is written then.\<close>

datatype tick = Assertion_failed | Never_returns | Returns MergeModule bool

definition updateModule :: "(string \<Rightarrow> read_result) \<Rightarrow> MergeModule \<Rightarrow> tick" where
  "updateModule incoming m =
     (case dataSelector m of
        None \<Rightarrow> Assertion_failed
      | Some ds \<Rightarrow>
          (case update incoming (sourceList m) of
             None \<Rightarrow> Never_returns
           | Some sl \<Rightarrow>
               (let m1 = m\<lparr>sourceList := sl\<rparr> in
                (case select ds [] sl of
                   Inl e \<Rightarrow> Returns m1 True
                 | Inr out \<Rightarrow> Returns (m1\<lparr>written := written m1 @ [out]\<rparr>) True))))"


section \<open>The text form of a format\<close>






text \<open>Modelled from the spec: the text is cut at parentheses and blanks; every other run
  of characters is one atom.\<close>

datatype token = LPAREN | RPAREN | BLANK | ATOM string






section \<open>The structure that a printed selector shows\<close>

text \<open>What \<^verbatim>\<open>toString\<close> prints for the index path of a leaf.\<close>

definition brackets :: "int list list \<Rightarrow> string" where
  "brackets indices = concat (map (\<lambda>d. ''['' @ indices_toString d @ '']'') indices)"



text \<open>The index paths and the selectors that the parser builds: every dimension has an
  index, every index lies between 0 and the largest \<^verbatim>\<open>int\<close>, no name holds an opening
  bracket or a null character, and a root selector is never a child.\<close>

definition dims_ok :: "int list list \<Rightarrow> bool" where
  "dims_ok indices = (\<forall>d \<in> set indices. d \<noteq> [] \<and> (\<forall>i \<in> set d. 0 \<le> i \<and> i \<le> INT_MAX))"


section \<open>Properties stated about evaluation\<close>

text \<open>An index path \<open>indices\<close> addresses a scalar before its last dimension: following
  the indices of the dimensions through the nested lists of \<open>inp\<close>, some index of a
  dimension that is not the last lies inside the current list and finds an element that
  is not a list.\<close>

fun scalar_before_last :: "Bottle \<Rightarrow> int list list \<Rightarrow> bool" where
  "scalar_before_last inp (d # d' # ds) =
     (\<exists>i \<in> set d. 1 \<le> i \<and> i \<le> int (length inp) \<and>
        (\<not> isList (inp ! nat (i - 1)) \<or>
         scalar_before_last (asList (inp ! nat (i - 1))) (d' # ds)))"
| "scalar_before_last inp ds = False"

text \<open>What the specification of the selection lets an index path pick out of a record,
  to be compared with \<^verbatim>\<open>IndexSelector::select\<close>. The empty path picks every element
  of the record, in order. Otherwise the indices of a dimension are followed in their
  order, an index \<open>i\<close> standing for position \<open>i - 1\<close>: at the last dimension an element
  that is a list gives its children and any other element gives itself; at a dimension
  before the last the element is the record of the next dimension. A position is read
  with \<open>get\<close>, which is the element there when the position lies inside the record.\<close>

fun pick :: "Bottle \<Rightarrow> int list list \<Rightarrow> Bottle" where
  "pick inp [] = inp"
| "pick inp [d] = concat (map (\<lambda>i. case get inp (i - 1) of VList xs \<Rightarrow> xs | v \<Rightarrow> [v]) d)"
| "pick inp (d # d' # ds) = concat (map (\<lambda>i. pick (asList (get inp (i - 1))) (d' # ds)) d)"

text \<open>An index path is well addressed in a record: every index of every dimension lies
  inside the record it is applied to, and every element chosen before the last
  dimension is a list.\<close>

fun well_addressed :: "Bottle \<Rightarrow> int list list \<Rightarrow> bool" where
  "well_addressed inp [] = True"
| "well_addressed inp [d] = (\<forall>i \<in> set d. 1 \<le> i \<and> i \<le> int (length inp))"
| "well_addressed inp (d # d' # ds) =
     (\<forall>i \<in> set d. 1 \<le> i \<and> i \<le> int (length inp) \<and> isList (inp ! nat (i - 1)) \<and>
        well_addressed (asList (inp ! nat (i - 1))) (d' # ds))"

text \<open>An index path has an index outside the record it is applied to, in a dimension
  that is not the last.\<close>

fun out_of_range_before_last :: "Bottle \<Rightarrow> int list list \<Rightarrow> bool" where
  "out_of_range_before_last inp (d # d' # ds) =
     (\<exists>i \<in> set d. i < 1 \<or> int (length inp) < i \<or>
        (isList (inp ! nat (i - 1)) \<and>
         out_of_range_before_last (asList (inp ! nat (i - 1))) (d' # ds)))"
| "out_of_range_before_last inp ds = False"

text \<open>An index path meets, in a dimension that is not the last, a position that does not
  hold a list: a scalar, or nothing at all when the position lies outside the record.\<close>

fun non_list_before_last :: "Bottle \<Rightarrow> int list list \<Rightarrow> bool" where
  "non_list_before_last inp (d # d' # ds) =
     (\<exists>i \<in> set d. \<not> isList (get inp (i - 1)) \<or>
        non_list_before_last (asList (get inp (i - 1))) (d' # ds))"
| "non_list_before_last inp ds = False"

text \<open>A source list with the one source \<^verbatim>\<open>/a\<close>, whose cache holds \<open>b\<close>.\<close>

definition sl_a :: "Bottle \<Rightarrow> SourceList" where
  "sl_a b = \<lparr>portPrefix = ''/lm/merge/source'',
            sourceEntries = [(''/a'', \<lparr>data = b, port = ''/lm/merge/source1:i''\<rparr>)]\<rparr>"

text \<open>The source after a read that returns: with the bottle that has arrived, or as it
  was when the read has been interrupted.\<close>

definition after_read :: "(string \<Rightarrow> read_result) \<Rightarrow> PortSource \<Rightarrow> PortSource" where
  "after_read incoming ps = (case incoming (port ps) of Delivered b \<Rightarrow> ps\<lparr>data := b\<rparr> | _ \<Rightarrow> ps)"

text \<open>The index tokens of the grammar, \<^verbatim>\<open>index := single_index | range_index\<close> with
  \<^verbatim>\<open>single_index := digits\<close> and \<^verbatim>\<open>range_index := digits '-' digits\<close>, their text,
  and the text \<^verbatim>\<open>index (',' index)*\<close> of a bracket group.\<close>

datatype index = single_index string | range_index string string








definition groups_text :: "string list \<Rightarrow> string" where
  "groups_text gs = concat (map (\<lambda>g. ''['' @ g @ '']'') gs)"


declare scale_down.simps [simp del] scale_up.simps [simp del]
  range_loop.simps [simp del] split_loop.simps [simp del]
  loadFormat_loop.simps [simp del] getInputName_loop.simps [simp del]
  show_nat.simps [simp del]

section \<open>Selecting: basic facts\<close>

lemma addBottle_loop_append:
  "\<forall>i \<in> set is. i < length inp \<Longrightarrow> addBottle_loop out inp is = out @ map (\<lambda>i. inp ! i) is"
  by (induction "is" arbitrary: out) (simp_all add: add_def get_def)

lemma addBottle_append: "addBottle out inp = out @ inp"
  by (simp add: addBottle_def addBottle_loop_append map_nth)

lemma getSource_Some: "sourceMap sl name = Some src \<Longrightarrow> getSource sl name = Inr src"
  by (simp add: getSource_def hasSource_def)

lemma selectRecursive_last:
  "selectRecursive out inp is [] =
     Inr (out @ concat (map (\<lambda>i. if isList (get inp (i - 1)) then asList (get inp (i - 1))
                                  else [get inp (i - 1)]) is))"
  by (induction "is" arbitrary: out) (simp_all add: addBottle_append add_def)

lemma selectRecursive_error:
  "selectRecursive out inp is rest = Inl e \<Longrightarrow> e = runtime_error ''Cannot index non-list type''"
  by (induction out inp "is" rest rule: selectRecursive.induct)
     (auto simp: Let_def split: list.splits if_splits sum.splits)

lemma selectRecursive_acc:
  "selectRecursive out inp is rest =
     (case selectRecursive [] inp is rest of Inl e \<Rightarrow> Inl e | Inr c \<Rightarrow> Inr (out @ c))"
proof (induction rest arbitrary: out inp "is")
  case Nil
  show ?case by (simp add: selectRecursive_last)
next
  case (Cons d ds)
  note outer = Cons.IH
  show ?case
  proof (induction "is" arbitrary: out)
    case Nil
    show ?case by simp
  next
    case (Cons j js)
    note inner = Cons.IH
    show ?case
    proof (cases "isList (get inp (j - 1))")
      case False
      then show ?thesis by simp
    next
      case True
      show ?thesis
      proof (cases "selectRecursive [] (asList (get inp (j - 1))) d ds")
        case (Inl e)
        then show ?thesis
          using True outer [of out "asList (get inp (j - 1))" d] by simp
      next
        case (Inr c1)
        then show ?thesis
          using True outer [of out "asList (get inp (j - 1))" d]
            inner [of "out @ c1"] inner [of c1]
          by (simp split: sum.splits)
      qed
    qed
  qed
qed

lemma selectChildren_acc_aux:
  assumes "\<And>c b. c \<in> set cs \<Longrightarrow>
     select c b sl = (case select c [] sl of Inl e \<Rightarrow> Inl e | Inr r \<Rightarrow> Inr (b @ r))"
  shows "selectChildren cs b sl =
     (case selectChildren cs [] sl of Inl e \<Rightarrow> Inl e | Inr r \<Rightarrow> Inr (b @ r))"
  using assms
proof (induction cs arbitrary: b)
  case Nil
  show ?case by simp
next
  case (Cons c cs)
  have hd: "select c b sl = (case select c [] sl of Inl e \<Rightarrow> Inl e | Inr r \<Rightarrow> Inr (b @ r))"
    by (rule Cons.prems) simp
  have tl: "\<And>b'. selectChildren cs b' sl =
     (case selectChildren cs [] sl of Inl e \<Rightarrow> Inl e | Inr r \<Rightarrow> Inr (b' @ r))"
    by (rule Cons.IH) (simp add: Cons.prems)
  show ?case
  proof (cases "select c [] sl")
    case (Inl e)
    then show ?thesis using hd by simp
  next
    case (Inr r1)
    then show ?thesis using hd tl [of "b @ r1"] tl [of r1]
      by (simp split: sum.splits)
  qed
qed

lemma select_acc:
  "select s b sl = (case select s [] sl of Inl e \<Rightarrow> Inl e | Inr r \<Rightarrow> Inr (b @ r))"
proof (induction s arbitrary: b)
  case (IndexSelector name indices)
  show ?case
  proof (cases indices)
    case Nil
    then show ?thesis by (simp add: addBottle_append split: sum.splits)
  next
    case (Cons d ds)
    then show ?thesis
      using selectRecursive_acc [of b _ d ds]
      by (simp split: sum.splits)
  qed
next
  case (CompositeSelector children)
  show ?case by (simp split: sum.splits)
next
  case (RootSelector children)
  then show ?case using selectChildren_acc_aux [of children sl b] by simp
qed

lemma selectChildren_concat:
  "\<forall>c \<in> set cs. select c [] sl = Inr (f c) \<Longrightarrow>
   selectChildren cs b sl = Inr (b @ concat (map f cs))"
proof (induction cs arbitrary: b)
  case Nil
  show ?case by simp
next
  case (Cons c cs)
  then show ?case using select_acc [of c b sl] by simp
qed

lemma selectRecursive_fails_at:
  "i \<in> set is \<Longrightarrow>
   \<not> isList (get inp (i - 1)) \<or>
     (\<forall>out'. selectRecursive out' (asList (get inp (i - 1))) d ds
        = Inl (runtime_error ''Cannot index non-list type'')) \<Longrightarrow>
   selectRecursive out inp is (d # ds) = Inl (runtime_error ''Cannot index non-list type'')"
proof (induction "is" arbitrary: out)
  case Nil
  then show ?case by simp
next
  case (Cons j js)
  show ?case
  proof (cases "isList (get inp (j - 1))")
    case False
    then show ?thesis by simp
  next
    case True
    show ?thesis
    proof (cases "selectRecursive out (asList (get inp (j - 1))) d ds")
      case (Inl e)
      then show ?thesis using True selectRecursive_error [OF Inl] by simp
    next
      case (Inr out')
      with Cons.prems True have "i \<in> set js" by auto
      from Cons.IH [OF this Cons.prems(2), of out'] show ?thesis using True Inr by simp
    qed
  qed
qed

lemma scalar_before_last_fails:
  "scalar_before_last inp (d # rest) \<Longrightarrow>
   selectRecursive out inp d rest = Inl (runtime_error ''Cannot index non-list type'')"
proof (induction rest arbitrary: inp d out)
  case Nil
  then show ?case by simp
next
  case (Cons d' ds)
  from Cons.prems obtain i where i: "i \<in> set d" "1 \<le> i" "i \<le> int (length inp)"
    and alt: "\<not> isList (inp ! nat (i - 1)) \<or> scalar_before_last (asList (inp ! nat (i - 1))) (d' # ds)"
    by auto
  have g: "get inp (i - 1) = inp ! nat (i - 1)" using i by (simp add: get_def)
  have "\<not> isList (get inp (i - 1)) \<or>
     (\<forall>out'. selectRecursive out' (asList (get inp (i - 1))) d' ds
        = Inl (runtime_error ''Cannot index non-list type''))"
    using alt Cons.IH by (auto simp: g)
  with i(1) show ?case by (rule selectRecursive_fails_at)
qed

lemma splice_cases:
  "(if isList v then asList v else [v]) = (case v of VList xs \<Rightarrow> xs | w \<Rightarrow> [w])"
  by (cases v) (simp_all add: isList_def asList_def)

lemma selectRecursive_pick:
  "\<not> non_list_before_last inp (d # rest) \<Longrightarrow>
   selectRecursive out inp d rest = Inr (out @ pick inp (d # rest))"
proof (induction rest arbitrary: inp d out)
  case Nil
  show ?case by (simp add: selectRecursive_last splice_cases)
next
  case (Cons d' ds)
  note outer = Cons.IH
  from Cons.prems show ?case
  proof (induction d arbitrary: out)
    case Nil
    show ?case by simp
  next
    case (Cons j js)
    from Cons.prems have l: "isList (get inp (j - 1))"
      and n: "\<not> non_list_before_last (asList (get inp (j - 1))) (d' # ds)"
      and r: "\<not> non_list_before_last inp (js # d' # ds)"
      by simp_all
    from outer [OF n] have
      a: "selectRecursive out (asList (get inp (j - 1))) d' ds
            = Inr (out @ pick (asList (get inp (j - 1))) (d' # ds))" .
    from Cons.IH [OF r] have
      b: "selectRecursive (out @ pick (asList (get inp (j - 1))) (d' # ds)) inp js (d' # ds)
            = Inr ((out @ pick (asList (get inp (j - 1))) (d' # ds)) @ pick inp (js # d' # ds))" .
    show ?case using l a b by simp
  qed
qed

lemma selectRecursive_non_list:
  "non_list_before_last inp (d # rest) \<Longrightarrow>
   selectRecursive out inp d rest = Inl (runtime_error ''Cannot index non-list type'')"
proof (induction rest arbitrary: inp d out)
  case Nil
  then show ?case by simp
next
  case (Cons d' ds)
  from Cons.prems obtain i where i: "i \<in> set d"
    and alt: "\<not> isList (get inp (i - 1)) \<or> non_list_before_last (asList (get inp (i - 1))) (d' # ds)"
    by auto
  have "\<not> isList (get inp (i - 1)) \<or>
     (\<forall>out'. selectRecursive out' (asList (get inp (i - 1))) d' ds
        = Inl (runtime_error ''Cannot index non-list type''))"
    using alt Cons.IH by auto
  with i show ?case by (rule selectRecursive_fails_at)
qed

lemma select_leaf_pick:
  "sourceMap sl name = Some src \<Longrightarrow>
   select (IndexSelector name indices) b sl =
     (if non_list_before_last (data src) indices
      then Inl (runtime_error ''Cannot index non-list type'')
      else Inr (b @ pick (data src) indices))"
proof (cases indices)
  case Nil
  assume "sourceMap sl name = Some src"
  then show ?thesis using Nil by (simp add: getSource_Some addBottle_append getData_def)
next
  case (Cons d rest)
  assume src: "sourceMap sl name = Some src"
  show ?thesis
  proof (cases "non_list_before_last (data src) (d # rest)")
    case True
    from selectRecursive_non_list [OF True, of b] show ?thesis
      using True by (simp add: Cons getSource_Some [OF src] getData_def)
  next
    case False
    from selectRecursive_pick [OF False, of b] show ?thesis
      using False by (simp add: Cons getSource_Some [OF src] getData_def)
  qed
qed

lemma get_outside: "i < 1 \<or> int (length inp) < i \<Longrightarrow> get inp (i - 1) = VNull"
  by (auto simp: get_def)

lemma get_inside: "1 \<le> i \<Longrightarrow> i \<le> int (length inp) \<Longrightarrow> get inp (i - 1) = inp ! nat (i - 1)"
  by (simp add: get_def)

lemma out_of_range_non_list:
  "out_of_range_before_last inp indices \<Longrightarrow> non_list_before_last inp indices"
proof (induction inp indices rule: out_of_range_before_last.induct)
  case (1 inp d d' ds)
  from "1.prems" obtain i where i: "i \<in> set d"
    and alt: "i < 1 \<or> int (length inp) < i \<or>
        (isList (inp ! nat (i - 1)) \<and>
         out_of_range_before_last (asList (inp ! nat (i - 1))) (d' # ds))"
    by auto
  have "\<not> isList (get inp (i - 1)) \<or> non_list_before_last (asList (get inp (i - 1))) (d' # ds)"
  proof (cases "i < 1 \<or> int (length inp) < i")
    case True
    then show ?thesis by (simp add: get_outside isList_def)
  next
    case False
    then have g: "get inp (i - 1) = inp ! nat (i - 1)" by (simp add: get_inside)
    from False alt have l: "isList (inp ! nat (i - 1))"
      and o: "out_of_range_before_last (asList (inp ! nat (i - 1))) (d' # ds)" by auto
    from "1.IH" [OF i o] show ?thesis by (simp add: g)
  qed
  with i show ?case by auto
qed simp_all

lemma well_addressed_lists:
  "well_addressed inp indices \<Longrightarrow> \<not> non_list_before_last inp indices"
proof (induction inp indices rule: well_addressed.induct)
  case (3 inp d d' ds)
  show ?case
  proof
    assume "non_list_before_last inp (d # d' # ds)"
    then obtain i where i: "i \<in> set d"
      and alt: "\<not> isList (get inp (i - 1)) \<or> non_list_before_last (asList (get inp (i - 1))) (d' # ds)"
      by auto
    from "3.prems" i have r: "1 \<le> i" "i \<le> int (length inp)" and l: "isList (inp ! nat (i - 1))"
      and w: "well_addressed (asList (inp ! nat (i - 1))) (d' # ds)" by auto
    have g: "get inp (i - 1) = inp ! nat (i - 1)" using r by (rule get_inside)
    from "3.IH" [OF i w] alt l show False by (simp add: g)
  qed
qed simp_all

lemma update_loop_returns:
  "\<forall>(n, ps) \<in> set es. incoming (port ps) \<noteq> Blocked \<Longrightarrow>
   update_loop incoming es = Some (map (\<lambda>(n, ps). (n, after_read incoming ps)) es)"
proof (induction es)
  case Nil
  show ?case by simp
next
  case (Cons e es)
  obtain n ps where e: "e = (n, ps)" by (cases e)
  from Cons.prems e have nb: "incoming (port ps) \<noteq> Blocked" by simp
  then have "update_PortSource incoming ps = Some (after_read incoming ps)"
    by (cases "incoming (port ps)") (simp_all add: update_PortSource_def after_read_def)
  with Cons e show ?case by simp
qed

lemma update_loop_blocks:
  "(n, ps) \<in> set es \<Longrightarrow> incoming (port ps) = Blocked \<Longrightarrow> update_loop incoming es = None"
proof (induction es)
  case Nil
  then show ?case by simp
next
  case (Cons e es)
  obtain n' ps' where e: "e = (n', ps')" by (cases e)
  show ?case
  proof (cases "(n, ps) = e")
    case True
    with Cons.prems e show ?thesis by (simp add: update_PortSource_def)
  next
    case False
    with Cons have "update_loop incoming es = None" by simp
    then show ?thesis by (simp add: e split: option.splits)
  qed
qed


lemma getInputName_loop_error:
  "getInputName_loop net prefix i = Inl e \<Longrightarrow> e = signed_overflow"
proof (induction net prefix i rule: getInputName_loop.induct)
  case (1 net prefix i)
  from "1.prems" show ?case
    by (subst (asm) getInputName_loop.simps) (auto simp: Let_def split: if_splits dest: "1.IH")
qed


section \<open>Printing and parsing: basic facts\<close>

subsection \<open>Decimal digits\<close>













subsection \<open>Finding and splitting\<close>


















subsection \<open>Parsing printed index paths\<close>





lemma brackets_simps [simp]:
  "brackets [] = []"
  "brackets (d # ds) = CHR ''['' # indices_toString d @ CHR '']'' # brackets ds"
  by (simp_all add: brackets_def)

lemma dims_ok_simps [simp]:
  "dims_ok []"
  "dims_ok (d # ds) = (d \<noteq> [] \<and> (\<forall>i \<in> set d. 0 \<le> i \<and> i \<le> INT_MAX) \<and> dims_ok ds)"
  "dims_ok (xs @ ys) = (dims_ok xs \<and> dims_ok ys)"
  by (auto simp: dims_ok_def)






subsection \<open>Parsing index tokens\<close>















lemma groups_text_simps [simp]:
  "groups_text [] = []"
  "groups_text (g # gs) = CHR ''['' # g @ CHR '']'' # groups_text gs"
  "groups_text (gs @ hs) = groups_text gs @ groups_text hs"
  by (simp_all add: groups_text_def)











subsection \<open>What the parser builds\<close>













subsection \<open>Parsing what a printed selector shows\<close>







section \<open>Rounding to a double: basic facts\<close>






section \<open>The claims\<close>

subsection \<open>Selection\<close>

text \<open>
  Claim C4. A leaf selector whose index path is well addressed in the source's cached
  bottle appends to the accumulator what the path picks. With an empty index path these
  are the elements of the cached bottle, in order, each as an element of its own. With
  a non-empty path the indices are followed dimension by dimension, and at the last
  dimension an element that is a list contributes its children and any other element
  contributes itself.
\<close>

theorem leaf_select_splices:
  "sourceMap sl name = Some src \<Longrightarrow> well_addressed (data src) indices \<Longrightarrow>
   select (IndexSelector name indices) b sl = Inr (b @ pick (data src) indices)"
  using select_leaf_pick [of sl name src indices b] well_addressed_lists [of "data src" indices]
  by simp

theorem leaf_select_splices_witness:
  "select (IndexSelector ''/a'' []) [VInt32 0] (sl_a [VList [VInt32 10, VInt32 11], VInt32 20])
     = Inr [VInt32 0, VList [VInt32 10, VInt32 11], VInt32 20] \<and>
   select (IndexSelector ''/a'' [[2, 1]]) [VInt32 0] (sl_a [VList [VInt32 10, VInt32 11], VInt32 20])
     = Inr [VInt32 0, VInt32 20, VInt32 10, VInt32 11] \<and>
   select (IndexSelector ''/a'' [[1], [2]]) [VInt32 0]
      (sl_a [VList [VInt32 10, VInt32 11], VList [VInt32 20, VInt32 21]])
     = Inr [VInt32 0, VInt32 11] \<and>
   select (IndexSelector ''/a'' [[2, 1], [1, 2]]) []
      (sl_a [VList [VInt32 10, VList [VInt32 11, VInt32 12]], VList [VInt32 20, VInt32 21]])
     = Inr [VInt32 20, VInt32 21, VInt32 10, VInt32 11, VInt32 12]"
proof -
  have s: "sourceMap (sl_a x) ''/a'' = Some \<lparr>data = x, port = ''/lm/merge/source1:i''\<rparr>" for x
    by (simp add: sl_a_def sourceMap_def)
  have a: "select (IndexSelector ''/a'' []) [VInt32 0] (sl_a [VList [VInt32 10, VInt32 11], VInt32 20])
     = Inr [VInt32 0, VList [VInt32 10, VInt32 11], VInt32 20]"
    using leaf_select_splices [OF s, of "[VList [VInt32 10, VInt32 11], VInt32 20]" "[]" "[VInt32 0]"]
    by simp
  have b: "select (IndexSelector ''/a'' [[2, 1]]) [VInt32 0] (sl_a [VList [VInt32 10, VInt32 11], VInt32 20])
     = Inr [VInt32 0, VInt32 20, VInt32 10, VInt32 11]"
    using leaf_select_splices [OF s, of "[VList [VInt32 10, VInt32 11], VInt32 20]" "[[2, 1]]" "[VInt32 0]"]
    by (simp add: get_def)
  have c: "select (IndexSelector ''/a'' [[1], [2]]) [VInt32 0]
      (sl_a [VList [VInt32 10, VInt32 11], VList [VInt32 20, VInt32 21]])
     = Inr [VInt32 0, VInt32 11]"
    using leaf_select_splices [OF s, of "[VList [VInt32 10, VInt32 11], VList [VInt32 20, VInt32 21]]"
        "[[1], [2]]" "[VInt32 0]"]
    by (simp add: get_def isList_def asList_def)
  have d: "select (IndexSelector ''/a'' [[2, 1], [1, 2]]) []
      (sl_a [VList [VInt32 10, VList [VInt32 11, VInt32 12]], VList [VInt32 20, VInt32 21]])
     = Inr [VInt32 20, VInt32 21, VInt32 10, VInt32 11, VInt32 12]"
    using leaf_select_splices [OF s,
        of "[VList [VInt32 10, VList [VInt32 11, VInt32 12]], VList [VInt32 20, VInt32 21]]"
        "[[2, 1], [1, 2]]" "[]"]
    by (simp add: get_def isList_def asList_def)
  from a b c d show ?thesis by simp
qed

text \<open>
  Claim C5. When every child \<open>c\<close>, evaluated on its own, contributes \<open>f c\<close>, a composite
  selector appends exactly one new nested list to the accumulator, holding the
  contributions of the children in declared order, and the root selector appends the
  same contributions to the accumulator itself, with no nesting level of its own.
\<close>

theorem composite_wraps_root_does_not:
  "\<forall>c \<in> set children. select c [] sl = Inr (f c) \<Longrightarrow>
     select (CompositeSelector children) b sl = Inr (b @ [VList (concat (map f children))]) \<and>
     select (RootSelector children) b sl = Inr (b @ concat (map f children))"
  using selectChildren_concat [of children sl f] by simp

theorem composite_wraps_root_does_not_witness:
  "select (CompositeSelector [IndexSelector ''/a'' [], IndexSelector ''/a'' [[2]]]) [VInt32 0]
      (sl_a [VInt32 10, VInt32 20])
     = Inr [VInt32 0, VList [VInt32 10, VInt32 20, VInt32 20]] \<and>
   select (RootSelector [IndexSelector ''/a'' [], IndexSelector ''/a'' [[2]]]) [VInt32 0]
      (sl_a [VInt32 10, VInt32 20])
     = Inr [VInt32 0, VInt32 10, VInt32 20, VInt32 20]"
  using composite_wraps_root_does_not [of "[IndexSelector ''/a'' [], IndexSelector ''/a'' [[2]]]"
      "sl_a [VInt32 10, VInt32 20]"
      "\<lambda>c. if c = IndexSelector ''/a'' [] then [VInt32 10, VInt32 20] else [VInt32 20]" "[VInt32 0]"]
  by (simp add: sl_a_def sourceMap_def getSource_def hasSource_def getData_def addBottle_append
      get_def isList_def add_def)

text \<open>
  Claim C6. When the index path of a leaf selector addresses a scalar in a dimension
  that is not the last, evaluation fails with the error "Cannot index non-list type"
  and produces no output.
\<close>

theorem scalar_indexed_as_list_fails:
  "sourceMap sl name = Some src \<Longrightarrow> scalar_before_last (data src) indices \<Longrightarrow>
   select (IndexSelector name indices) b sl = Inl (runtime_error ''Cannot index non-list type'')"
proof -
  assume src: "sourceMap sl name = Some src" and sc: "scalar_before_last (data src) indices"
  from sc obtain d rest where ix: "indices = d # rest" by (cases indices) auto
  from sc have "selectRecursive b (data src) d rest = Inl (runtime_error ''Cannot index non-list type'')"
    unfolding ix by (rule scalar_before_last_fails)
  then show ?thesis by (simp add: ix getSource_Some [OF src] getData_def)
qed

theorem scalar_indexed_as_list_fails_witness:
  "scalar_before_last [VInt32 7, VList [VInt32 8]] [[1], [1]] \<and>
   select (IndexSelector ''/a'' [[1], [1]]) [] (sl_a [VInt32 7, VList [VInt32 8]])
     = Inl (runtime_error ''Cannot index non-list type'')"
proof -
  have s: "sourceMap (sl_a [VInt32 7, VList [VInt32 8]]) ''/a''
        = Some \<lparr>data = [VInt32 7, VList [VInt32 8]], port = ''/lm/merge/source1:i''\<rparr>"
    by (simp add: sl_a_def sourceMap_def)
  have p: "scalar_before_last [VInt32 7, VList [VInt32 8]] [[1], [1]]"
    by (simp add: isList_def)
  from scalar_indexed_as_list_fails [OF s, of "[[1], [1]]" "[]"] p show ?thesis by simp
qed

text \<open>
  Claim C2 says that an index outside the current list makes evaluation fail with a
  range error. The selector has no range check: it reads the position with
  \<^verbatim>\<open>Bottle::get\<close>, which answers the null value there. With \<^verbatim>\<open>/a[5]\<close> on a
  bottle of three elements nothing fails: the null value is not a list and is added to
  the output.
\<close>

theorem out_of_range_last_dimension_counterexample:
  "select (IndexSelector ''/a'' [[5]]) [] (sl_a [VInt32 10, VInt32 20, VInt32 30]) = Inr [VNull]"
  by (simp add: sl_a_def sourceMap_def getSource_def hasSource_def getData_def get_def
      isList_def add_def)

text \<open>
  Claim C2, amended. The module has no range error. An index outside the record it is
  applied to, in any dimension that is not the last, makes the evaluation of the leaf
  fail with the error "Cannot index non-list type". When every position met before the
  last dimension holds a list, the evaluation raises no error, whatever the indices of
  the last dimension: it appends what the path picks, which is the null value for a
  position outside the record.
\<close>

theorem out_of_range_index:
  "sourceMap sl name = Some src \<Longrightarrow>
   (out_of_range_before_last (data src) indices \<longrightarrow>
      select (IndexSelector name indices) b sl = Inl (runtime_error ''Cannot index non-list type'')) \<and>
   (\<not> non_list_before_last (data src) indices \<longrightarrow>
      select (IndexSelector name indices) b sl = Inr (b @ pick (data src) indices))"
  using select_leaf_pick [of sl name src indices b]
    out_of_range_non_list [of "data src" indices]
  by auto

theorem out_of_range_index_witness:
  "out_of_range_before_last [VList [VList [VInt32 1]], VInt32 2] [[1], [5], [1]] \<and>
   select (IndexSelector ''/a'' [[1], [5], [1]]) [VInt32 0] (sl_a [VList [VList [VInt32 1]], VInt32 2])
     = Inl (runtime_error ''Cannot index non-list type'') \<and>
   \<not> non_list_before_last [VList [VInt32 1, VInt32 2], VInt32 3] [[1], [2, 7, 1]] \<and>
   select (IndexSelector ''/a'' [[1], [2, 7, 1]]) [VInt32 0] (sl_a [VList [VInt32 1, VInt32 2], VInt32 3])
     = Inr [VInt32 0, VInt32 2, VNull, VInt32 1]"
proof -
  have s: "sourceMap (sl_a x) ''/a'' = Some \<lparr>data = x, port = ''/lm/merge/source1:i''\<rparr>" for x
    by (simp add: sl_a_def sourceMap_def)
  have o: "out_of_range_before_last [VList [VList [VInt32 1]], VInt32 2] [[1], [5], [1]]"
    by (simp add: isList_def asList_def)
  have n: "\<not> non_list_before_last [VList [VInt32 1, VInt32 2], VInt32 3] [[1], [2, 7, 1]]"
    by (simp add: isList_def get_def)
  have a: "select (IndexSelector ''/a'' [[1], [5], [1]]) [VInt32 0] (sl_a [VList [VList [VInt32 1]], VInt32 2])
     = Inl (runtime_error ''Cannot index non-list type'')"
    using out_of_range_index [OF s, of "[VList [VList [VInt32 1]], VInt32 2]" "[[1], [5], [1]]" "[VInt32 0]"] o
    by simp
  have b: "select (IndexSelector ''/a'' [[1], [2, 7, 1]]) [VInt32 0] (sl_a [VList [VInt32 1, VInt32 2], VInt32 3])
     = Inr [VInt32 0, VInt32 2, VNull, VInt32 1]"
    using out_of_range_index [OF s, of "[VList [VInt32 1, VInt32 2], VInt32 3]" "[[1], [2, 7, 1]]" "[VInt32 0]"] n
    by (simp add: get_def asList_def)
  from o n a b show ?thesis by simp
qed

text \<open>
  Claim C9 says that a source whose cache is still empty contributes nothing, whatever
  selector refers to it, and that the tick goes through. On an empty cache the selector
  \<^verbatim>\<open>/a[1]\<close> contributes the null value, and the selector \<^verbatim>\<open>/a[1][1]\<close> throws:
  the tick, here one whose read has been interrupted, catches the error and writes no
  bottle at all.
\<close>

theorem empty_source_indexed_counterexample:
  "select (IndexSelector ''/a'' [[1]]) [] (sl_a []) = Inr [VNull] \<and>
   select (IndexSelector ''/a'' [[1], [1]]) [] (sl_a [])
     = Inl (runtime_error ''Cannot index non-list type'') \<and>
   updateModule (\<lambda>p. Interrupted)
     (new_MergeModule\<lparr>sourceList := sl_a [],
        dataSelector := Some (RootSelector [IndexSelector ''/a'' [[1], [1]]])\<rparr>) =
   Returns (new_MergeModule\<lparr>sourceList := sl_a [],
        dataSelector := Some (RootSelector [IndexSelector ''/a'' [[1], [1]]])\<rparr>) True"
  by (simp add: updateModule_def update_def update_PortSource_def sl_a_def sourceMap_def
       new_MergeModule_def getSource_def hasSource_def getData_def get_def isList_def add_def)

text \<open>
  Claim C9, amended. A leaf selector with an empty index path on a source whose cache
  is empty appends nothing and raises no error. A tick of a module that has a selector
  first reads every source, and the read waits. When every read returns, the tick
  returns true to the run loop: it has written the selected bottle, or, when the
  selection has raised an error, it has written nothing. When the read of a source does
  not return, as for a source that never delivers a bottle and is not interrupted,
  the tick does not return.
\<close>

theorem empty_source_whole_record:
  "(sourceMap sl name = Some src \<and> data src = [] \<longrightarrow>
      select (IndexSelector name []) b sl = Inr b) \<and>
   (dataSelector m = Some ds \<and>
    (\<forall>(n, ps) \<in> set (sourceEntries (sourceList m)). incoming (port ps) \<noteq> Blocked) \<longrightarrow>
      updateModule incoming m =
        (let sl' = (sourceList m)\<lparr>sourceEntries :=
                      map (\<lambda>(n, ps). (n, after_read incoming ps)) (sourceEntries (sourceList m))\<rparr>
         in case select ds [] sl' of
              Inl e \<Rightarrow> Returns (m\<lparr>sourceList := sl'\<rparr>) True
            | Inr out \<Rightarrow> Returns (m\<lparr>sourceList := sl', written := written m @ [out]\<rparr>) True)) \<and>
   (dataSelector m = Some ds \<and> (n, ps) \<in> set (sourceEntries (sourceList m)) \<and>
    incoming (port ps) = Blocked \<longrightarrow>
      updateModule incoming m = Never_returns)"
proof (intro conjI impI)
  assume "sourceMap sl name = Some src \<and> data src = []"
  then show "select (IndexSelector name []) b sl = Inr b"
    by (simp add: getSource_Some addBottle_append getData_def)
next
  assume a: "dataSelector m = Some ds \<and>
    (\<forall>(n, ps) \<in> set (sourceEntries (sourceList m)). incoming (port ps) \<noteq> Blocked)"
  then have "update_loop incoming (sourceEntries (sourceList m))
      = Some (map (\<lambda>(n, ps). (n, after_read incoming ps)) (sourceEntries (sourceList m)))"
    by (intro update_loop_returns) simp
  with a show "updateModule incoming m =
        (let sl' = (sourceList m)\<lparr>sourceEntries :=
                      map (\<lambda>(n, ps). (n, after_read incoming ps)) (sourceEntries (sourceList m))\<rparr>
         in case select ds [] sl' of
              Inl e \<Rightarrow> Returns (m\<lparr>sourceList := sl'\<rparr>) True
            | Inr out \<Rightarrow> Returns (m\<lparr>sourceList := sl', written := written m @ [out]\<rparr>) True)"
    by (simp add: updateModule_def update_def Let_def split: sum.splits)
next
  assume a: "dataSelector m = Some ds \<and> (n, ps) \<in> set (sourceEntries (sourceList m)) \<and>
    incoming (port ps) = Blocked"
  then have "update_loop incoming (sourceEntries (sourceList m)) = None"
    by (intro update_loop_blocks [of n ps]) simp_all
  with a show "updateModule incoming m = Never_returns"
    by (simp add: updateModule_def update_def)
qed

theorem empty_source_whole_record_witness:
  "select (IndexSelector ''/a'' []) [VInt32 0] (sl_a []) = Inr [VInt32 0] \<and>
   updateModule (\<lambda>p. Interrupted)
       (new_MergeModule\<lparr>sourceList := sl_a [],
          dataSelector := Some (RootSelector [IndexSelector ''/a'' []])\<rparr>)
     = Returns (new_MergeModule\<lparr>sourceList := sl_a [],
          dataSelector := Some (RootSelector [IndexSelector ''/a'' []]), written := [[]]\<rparr>) True \<and>
   updateModule (\<lambda>p. Delivered [VList [VInt32 7]])
       (new_MergeModule\<lparr>sourceList := sl_a [],
          dataSelector := Some (RootSelector [IndexSelector ''/a'' [[1], [1]]])\<rparr>)
     = Returns (new_MergeModule\<lparr>sourceList := sl_a [VList [VInt32 7]],
          dataSelector := Some (RootSelector [IndexSelector ''/a'' [[1], [1]]]),
          written := [[VInt32 7]]\<rparr>) True \<and>
   updateModule (\<lambda>p. Delivered [VInt32 7])
       (new_MergeModule\<lparr>sourceList := sl_a [],
          dataSelector := Some (RootSelector [IndexSelector ''/a'' [[1], [1]]])\<rparr>)
     = Returns (new_MergeModule\<lparr>sourceList := sl_a [VInt32 7],
          dataSelector := Some (RootSelector [IndexSelector ''/a'' [[1], [1]]])\<rparr>) True \<and>
   updateModule (\<lambda>p. Blocked)
       (new_MergeModule\<lparr>sourceList := sl_a [],
          dataSelector := Some (RootSelector [IndexSelector ''/a'' []])\<rparr>)
     = Never_returns"
proof -
  let ?src = "\<lparr>data = [], port = ''/lm/merge/source1:i''\<rparr>"
  have a: "select (IndexSelector ''/a'' []) [VInt32 0] (sl_a []) = Inr [VInt32 0]"
    using empty_source_whole_record [of "sl_a []" "''/a''" ?src "[VInt32 0]"
      new_MergeModule "RootSelector []" "\<lambda>p. Interrupted" "''/a''" ?src]
    by (simp add: sl_a_def sourceMap_def)
  have b: "updateModule (\<lambda>p. Interrupted)
       (new_MergeModule\<lparr>sourceList := sl_a [],
          dataSelector := Some (RootSelector [IndexSelector ''/a'' []])\<rparr>)
     = Returns (new_MergeModule\<lparr>sourceList := sl_a [],
          dataSelector := Some (RootSelector [IndexSelector ''/a'' []]), written := [[]]\<rparr>) True"
    using empty_source_whole_record [of "sl_a []" "''/a''" ?src "[]"
      "new_MergeModule\<lparr>sourceList := sl_a [],
          dataSelector := Some (RootSelector [IndexSelector ''/a'' []])\<rparr>"
      "RootSelector [IndexSelector ''/a'' []]" "\<lambda>p. Interrupted" "''/a''" ?src]
    by (simp add: sl_a_def sourceMap_def after_read_def new_MergeModule_def
        getSource_def hasSource_def getData_def addBottle_append)
  have c: "updateModule (\<lambda>p. Delivered [VList [VInt32 7]])
       (new_MergeModule\<lparr>sourceList := sl_a [],
          dataSelector := Some (RootSelector [IndexSelector ''/a'' [[1], [1]]])\<rparr>)
     = Returns (new_MergeModule\<lparr>sourceList := sl_a [VList [VInt32 7]],
          dataSelector := Some (RootSelector [IndexSelector ''/a'' [[1], [1]]]),
          written := [[VInt32 7]]\<rparr>) True"
    using empty_source_whole_record [of "sl_a []" "''/a''" ?src "[]"
      "new_MergeModule\<lparr>sourceList := sl_a [],
          dataSelector := Some (RootSelector [IndexSelector ''/a'' [[1], [1]]])\<rparr>"
      "RootSelector [IndexSelector ''/a'' [[1], [1]]]" "\<lambda>p. Delivered [VList [VInt32 7]]" "''/a''" ?src]
    by (simp add: sl_a_def sourceMap_def after_read_def new_MergeModule_def
        getSource_def hasSource_def getData_def get_def isList_def asList_def add_def)
  have d: "updateModule (\<lambda>p. Delivered [VInt32 7])
       (new_MergeModule\<lparr>sourceList := sl_a [],
          dataSelector := Some (RootSelector [IndexSelector ''/a'' [[1], [1]]])\<rparr>)
     = Returns (new_MergeModule\<lparr>sourceList := sl_a [VInt32 7],
          dataSelector := Some (RootSelector [IndexSelector ''/a'' [[1], [1]]])\<rparr>) True"
    using empty_source_whole_record [of "sl_a []" "''/a''" ?src "[]"
      "new_MergeModule\<lparr>sourceList := sl_a [],
          dataSelector := Some (RootSelector [IndexSelector ''/a'' [[1], [1]]])\<rparr>"
      "RootSelector [IndexSelector ''/a'' [[1], [1]]]" "\<lambda>p. Delivered [VInt32 7]" "''/a''" ?src]
    by (simp add: sl_a_def sourceMap_def after_read_def new_MergeModule_def
        getSource_def hasSource_def getData_def get_def isList_def asList_def add_def)
  have e: "updateModule (\<lambda>p. Blocked)
       (new_MergeModule\<lparr>sourceList := sl_a [],
          dataSelector := Some (RootSelector [IndexSelector ''/a'' []])\<rparr>)
     = Never_returns"
    using empty_source_whole_record [of "sl_a []" "''/a''" ?src "[]"
      "new_MergeModule\<lparr>sourceList := sl_a [],
          dataSelector := Some (RootSelector [IndexSelector ''/a'' []])\<rparr>"
      "RootSelector [IndexSelector ''/a'' []]" "\<lambda>p. Blocked" "''/a''" ?src]
    by (simp add: sl_a_def new_MergeModule_def)
  from a b c d e show ?thesis by simp
qed

subsection \<open>Parsing index tokens\<close>



text \<open>
  Claim C8 says that a token inside brackets that is not a number is a syntax error.
  \<^verbatim>\<open>stringToInt\<close> reads the leading digits and does not look at what follows
  them, so \<^verbatim>\<open>/a[5abc]\<close> is parsed as \<^verbatim>\<open>/a[5]\<close>.
\<close>

theorem trailing_garbage_accepted:
  "new_IndexSelector ''/a[5abc]'' = Inr (IndexSelector ''/a'' [[5]])"
  by code_simp

subsection \<open>Printing a selector and reading it back\<close>




subsection \<open>Declaring sources\<close>

text \<open>
  Claim C10. When \<^verbatim>\<open>addSource(name)\<close> fails in \<^verbatim>\<open>connect\<close>, the source stays in
  the map under that name, and every later \<^verbatim>\<open>addSource(name)\<close> returns without an
  error and leaves the source list and the network as they are: it does not connect.
\<close>

theorem failed_addSource_stays_registered:
  "addSource name (sl, net) = (Inl (runtime_error (''Cannot find requested port: '' @ name)), sl', net') \<Longrightarrow>
   hasSource sl' name \<and> (\<forall>net''. addSource name (sl', net'') = (Inr (), sl', net''))"
proof -
  assume a: "addSource name (sl, net) = (Inl (runtime_error (''Cannot find requested port: '' @ name)), sl', net')"
  have "hasSource sl' name"
    using a
    by (auto simp: addSource_def Let_def hasSource_def sourceMap_def update_conv'
        new_PortSource_def getInputName_def
        split: if_splits sum.splits prod.splits dest: getInputName_loop_error)
  then show ?thesis by (simp add: addSource_def)
qed

theorem failed_addSource_stays_registered_witness:
  "addSource ''/a'' (\<lparr>portPrefix = ''/lm/merge/source'', sourceEntries = []\<rparr>,
                    \<lparr>registered = [], connections = []\<rparr>)
     = (Inl (runtime_error ''Cannot find requested port: /a''), sl_a [],
        \<lparr>registered = [''/lm/merge/source1:i''], connections = []\<rparr>) \<and>
   hasSource (sl_a []) ''/a'' \<and>
   addSource ''/a'' (sl_a [], \<lparr>registered = [''/a'', ''/lm/merge/source1:i''], connections = []\<rparr>)
     = (Inr (), sl_a [], \<lparr>registered = [''/a'', ''/lm/merge/source1:i''], connections = []\<rparr>)"
proof -
  have g: "getInputName \<lparr>registered = [], connections = []\<rparr> ''/lm/merge/source''
       = Inr ''/lm/merge/source1:i''"
    unfolding getInputName_def
    by (subst getInputName_loop.simps)
       (simp add: queryName_def INT_MAX_def show_int_def show_nat.simps digit_char_def)
  have a: "addSource ''/a'' (\<lparr>portPrefix = ''/lm/merge/source'', sourceEntries = []\<rparr>,
                    \<lparr>registered = [], connections = []\<rparr>)
     = (Inl (runtime_error (''Cannot find requested port: '' @ ''/a'')), sl_a [],
        \<lparr>registered = [''/lm/merge/source1:i''], connections = []\<rparr>)"
    by (simp add: addSource_def hasSource_def sourceMap_def new_PortSource_def g queryName_def
        connect_def sl_a_def)
  from failed_addSource_stays_registered [OF a] a show ?thesis by simp
qed

subsection \<open>Setting the frequency\<close>





end
